theory Spec2Isabelle
  imports Complex_Main "HOL-Library.AList"
begin

section \<open>Values, frames and errors\<close>

text \<open>
  A pandas cell of the one-row frame is a Python string or a number. Numbers are
  floats read as reals (rounding is not modelled), together with the three special
  values numpy produces: the two infinities and NaN.
\<close>

datatype num = Fin real | PosInf | NegInf | NaN

datatype cell = Str string | Num num

text \<open>
  The frame \<open>pd.DataFrame([input_dict])\<close> has exactly one row, so a frame is the
  ordered list of its columns, each with the value of row 0.
\<close>

type_synonym frame = "(string \<times> cell) list"

datatype error = KeyError string | ValueError string | TypeError string | ScalerError

text \<open>Sequencing of computations that may raise: the first error is the result.\<close>

fun and_then :: "error + 'a \<Rightarrow> ('a \<Rightarrow> error + 'b) \<Rightarrow> error + 'b" where
  "and_then (Inl e) f = Inl e"
| "and_then (Inr x) f = f x"

type_synonym stage = "frame \<Rightarrow> error + frame"

fun chain :: "stage list \<Rightarrow> stage" where
  "chain [] df = Inr df"
| "chain (f # fs) df = and_then (f df) (chain fs)"

text \<open>Python's short-circuit \<open>a and b\<close>: \<open>b\<close> is evaluated only when \<open>a\<close> is true.\<close>

fun and_also :: "error + bool \<Rightarrow> error + bool \<Rightarrow> error + bool" where
  "and_also (Inl e) b = Inl e"
| "and_also (Inr False) b = Inr False"
| "and_also (Inr True) b = b"

subsection \<open>Float arithmetic and comparisons (numpy semantics)\<close>

fun fadd :: "num \<Rightarrow> num \<Rightarrow> num" where
  "fadd (Fin a) (Fin b) = Fin (a + b)"
| "fadd NaN _ = NaN"
| "fadd _ NaN = NaN"
| "fadd PosInf NegInf = NaN"
| "fadd NegInf PosInf = NaN"
| "fadd PosInf _ = PosInf"
| "fadd _ PosInf = PosInf"
| "fadd NegInf _ = NegInf"
| "fadd _ NegInf = NegInf"

text \<open>
  Division of numpy floats never raises: a zero denominator gives an infinity with the
  sign of the numerator, and \<open>0 / 0\<close> gives NaN. (The zero here is always \<open>tenure + 1\<close>,
  a positive zero.)
\<close>

fun fdiv :: "num \<Rightarrow> num \<Rightarrow> num" where
  "fdiv (Fin a) (Fin b) =
     (if b \<noteq> 0 then Fin (a / b)
      else if a = 0 then NaN
      else if 0 < a then PosInf else NegInf)"
| "fdiv NaN _ = NaN"
| "fdiv _ NaN = NaN"
| "fdiv (Fin a) _ = Fin 0"
| "fdiv PosInf (Fin b) = (if 0 \<le> b then PosInf else NegInf)"
| "fdiv NegInf (Fin b) = (if 0 \<le> b then NegInf else PosInf)"
| "fdiv _ _ = NaN"

fun fle :: "num \<Rightarrow> num \<Rightarrow> bool" where
  "fle (Fin a) (Fin b) = (a \<le> b)"
| "fle NaN _ = False"
| "fle _ NaN = False"
| "fle NegInf _ = True"
| "fle _ PosInf = True"
| "fle _ _ = False"

fun fgt :: "num \<Rightarrow> num \<Rightarrow> bool" where
  "fgt (Fin a) (Fin b) = (a > b)"
| "fgt NaN _ = False"
| "fgt _ NaN = False"
| "fgt PosInf PosInf = False"
| "fgt PosInf _ = True"
| "fgt NegInf _ = False"
| "fgt (Fin a) NegInf = True"
| "fgt (Fin a) PosInf = False"

text \<open>\<open>int(b)\<close> and \<open>.astype(int)\<close> of a boolean.\<close>

definition flag :: "bool \<Rightarrow> cell" where
  "flag b = Num (Fin (if b then 1 else 0))"

subsection \<open>Column access\<close>

text \<open>\<open>df[c]\<close> raises KeyError when the frame has no column \<open>c\<close>.\<close>

definition getcol :: "string \<Rightarrow> frame \<Rightarrow> error + cell" where
  "getcol c df = (case map_of df c of None \<Rightarrow> Inl (KeyError c) | Some v \<Rightarrow> Inr v)"

text \<open>A column read for arithmetic or an ordering comparison: a string there raises.\<close>

definition getnum :: "string \<Rightarrow> frame \<Rightarrow> error + num" where
  "getnum c df =
     and_then (getcol c df) (\<lambda>v. case v of Num x \<Rightarrow> Inr x | Str s \<Rightarrow> Inl (TypeError c))"

text \<open>
  \<open>df[c] = v\<close> overwrites the column where it stands, or appends it as the last column.
\<close>

definition setcol :: "string \<Rightarrow> cell \<Rightarrow> frame \<Rightarrow> frame" where
  "setcol c v df = AList.update c v df"

text \<open>\<open>df[c].iloc[0] == n\<close>: equality with a number never raises.\<close>

definition col_eq :: "string \<Rightarrow> real \<Rightarrow> frame \<Rightarrow> error + bool" where
  "col_eq c n df = and_then (getcol c df) (\<lambda>v. Inr (v = Num (Fin n)))"

definition col_le :: "string \<Rightarrow> real \<Rightarrow> frame \<Rightarrow> error + bool" where
  "col_le c n df = and_then (getnum c df) (\<lambda>x. Inr (fle x (Fin n)))"

definition col_gt :: "string \<Rightarrow> real \<Rightarrow> frame \<Rightarrow> error + bool" where
  "col_gt c n df = and_then (getnum c df) (\<lambda>x. Inr (fgt x (Fin n)))"

subsection \<open>The pandas operations used by the pipeline\<close>

text \<open>
  \<open>Series.map(dict)\<close>: a value that is not a key of the dictionary becomes NaN; nothing
  is raised.
\<close>

fun map_dict :: "(string \<times> real) list \<Rightarrow> cell \<Rightarrow> num" where
  "map_dict d (Str s) = (case map_of d s of Some n \<Rightarrow> Fin n | None \<Rightarrow> NaN)"
| "map_dict d (Num x) = NaN"

definition map_column :: "string \<Rightarrow> (string \<times> real) list \<Rightarrow> stage" where
  "map_column c d df = and_then (getcol c df) (\<lambda>v. Inr (setcol c (Num (map_dict d v)) df))"

text \<open>\<open>Series.replace(old, new)\<close>.\<close>

definition replace_column :: "string \<Rightarrow> string \<Rightarrow> string \<Rightarrow> stage" where
  "replace_column c old new df =
     and_then (getcol c df) (\<lambda>v. Inr (setcol c (if v = Str old then Str new else v) df))"

text \<open>
  Two functions of the Python runtime are parameters of the model:
  \<open>parse_number\<close> is the string parser of \<open>pd.to_numeric\<close> (\<open>None\<close>: the string is not
  a number, ValueError), and \<open>level_name\<close> is \<open>str()\<close> of a numeric category, which
  \<open>pd.get_dummies\<close> uses to name an indicator column.
\<close>

record runtime =
  parse_number :: "string \<Rightarrow> num option"
  level_name :: "num \<Rightarrow> string"

definition to_numeric :: "runtime \<Rightarrow> cell \<Rightarrow> error + num" where
  "to_numeric rt v =
     (case v of
        Num x \<Rightarrow> Inr x
      | Str s \<Rightarrow> (case parse_number rt s of Some x \<Rightarrow> Inr x | None \<Rightarrow> Inl (ValueError s)))"

definition to_numeric_column :: "runtime \<Rightarrow> string \<Rightarrow> stage" where
  "to_numeric_column rt c df =
     and_then (getcol c df) (\<lambda>v. and_then (to_numeric rt v) (\<lambda>x. Inr (setcol c (Num x) df)))"

text \<open>
  \<open>pd.get_dummies\<close> on one column of the one-row frame. The categories (levels) of the
  column are its distinct non-missing values: the single value of row 0, or none when
  that value is NaN. With \<open>drop_first\<close> the first level is removed; one indicator
  column \<open>prefix_level\<close> is made for each level that is left, holding 1 in the rows
  with that level.
\<close>

definition levels :: "cell \<Rightarrow> cell list" where
  "levels v = (if v = Num NaN then [] else [v])"

fun level_str :: "runtime \<Rightarrow> cell \<Rightarrow> string" where
  "level_str rt (Str s) = s"
| "level_str rt (Num x) = level_name rt x"

definition get_dummies_1d :: "runtime \<Rightarrow> string \<Rightarrow> bool \<Rightarrow> cell \<Rightarrow> frame" where
  "get_dummies_1d rt prefix drop_first v =
     (let ls = levels v;
          kept = (if drop_first then tl ls else ls)
      in map (\<lambda>l. (prefix @ ''_'' @ level_str rt l, flag (v = l))) kept)"

text \<open>
  \<open>pd.get_dummies(df, columns=cs, drop_first=b)\<close>: the encoded columns are removed
  from the frame and their indicator columns are appended, in the order of \<open>cs\<close>.
\<close>

fun dummies_of :: "runtime \<Rightarrow> bool \<Rightarrow> string list \<Rightarrow> frame \<Rightarrow> error + frame" where
  "dummies_of rt b [] df = Inr []"
| "dummies_of rt b (c # cs) df =
     and_then (getcol c df) (\<lambda>v.
     and_then (dummies_of rt b cs df) (\<lambda>rest. Inr (get_dummies_1d rt c b v @ rest)))"

definition get_dummies :: "runtime \<Rightarrow> string list \<Rightarrow> bool \<Rightarrow> stage" where
  "get_dummies rt cs drop_first df =
     and_then (dummies_of rt drop_first cs df) (\<lambda>ds.
       Inr (filter (\<lambda>(c, v). c \<notin> set cs) df @ ds))"

section \<open>The raw attribute record and its one-row frame\<close>

text \<open>
  One customer as the caller enters it: the nineteen keys of \<open>input_dict\<close> in
  \<open>app.py\<close>. Every field holds a cell, so that a string in a numeric field and an
  unknown category are inputs of the model.
\<close>

record raw_record =
  Contract :: cell
  InternetService :: cell
  tenure :: cell
  MonthlyCharges :: cell
  TotalCharges :: cell
  PaymentMethod :: cell
  PaperlessBilling :: cell
  OnlineSecurity :: cell
  TechSupport :: cell
  gender :: cell
  SeniorCitizen :: cell
  Partner :: cell
  Dependents :: cell
  PhoneService :: cell
  MultipleLines :: cell
  OnlineBackup :: cell
  DeviceProtection :: cell
  StreamingTV :: cell
  StreamingMovies :: cell

text \<open>\<open>pd.DataFrame([input_dict])\<close>: one column per key, in the order of the dictionary.\<close>

definition input_df :: "raw_record \<Rightarrow> frame" where
  "input_df r =
     [(''Contract'', Contract r), (''InternetService'', InternetService r),
      (''tenure'', tenure r), (''MonthlyCharges'', MonthlyCharges r),
      (''TotalCharges'', TotalCharges r), (''PaymentMethod'', PaymentMethod r),
      (''PaperlessBilling'', PaperlessBilling r), (''OnlineSecurity'', OnlineSecurity r),
      (''TechSupport'', TechSupport r), (''gender'', gender r),
      (''SeniorCitizen'', SeniorCitizen r), (''Partner'', Partner r),
      (''Dependents'', Dependents r), (''PhoneService'', PhoneService r),
      (''MultipleLines'', MultipleLines r), (''OnlineBackup'', OnlineBackup r),
      (''DeviceProtection'', DeviceProtection r), (''StreamingTV'', StreamingTV r),
      (''StreamingMovies'', StreamingMovies r)]"

text \<open>
  The record the form handler of \<open>app.py\<close> builds from its eight widgets; the other
  eleven fields are constants there.
\<close>

definition input_dict ::
  "string \<Rightarrow> string \<Rightarrow> real \<Rightarrow> real \<Rightarrow> string \<Rightarrow> string \<Rightarrow> string \<Rightarrow> string \<Rightarrow> raw_record" where
  "input_dict contract internet_service tenure_v monthly_charges payment_method
     paperless_billing online_security tech_support =
     \<lparr> Contract = Str contract, InternetService = Str internet_service,
       tenure = Num (Fin tenure_v), MonthlyCharges = Num (Fin monthly_charges),
       TotalCharges = Num (Fin (tenure_v * monthly_charges)),
       PaymentMethod = Str payment_method, PaperlessBilling = Str paperless_billing,
       OnlineSecurity =
         Str (if internet_service \<noteq> ''No'' then online_security else ''No internet service''),
       TechSupport =
         Str (if internet_service \<noteq> ''No'' then tech_support else ''No internet service''),
       gender = Str ''Female'', SeniorCitizen = Num (Fin 0), Partner = Str ''No'',
       Dependents = Str ''No'', PhoneService = Str ''Yes'', MultipleLines = Str ''No'',
       OnlineBackup = Str ''No'', DeviceProtection = Str ''No'', StreamingTV = Str ''No'',
       StreamingMovies = Str ''No'' \<rparr>"

section \<open>preprocess_input\<close>

text \<open>The three dictionaries passed to \<open>Series.map\<close>.\<close>

definition yes_no :: "(string \<times> real) list" where
  "yes_no = [(''Yes'', 1), (''No'', 0)]"

definition gender_codes :: "(string \<times> real) list" where
  "gender_codes = [(''Female'', 0), (''Male'', 1)]"

definition contract_codes :: "(string \<times> real) list" where
  "contract_codes = [(''Month-to-month'', 0), (''One year'', 1), (''Two year'', 2)]"

subsection \<open>Steps 1 to 4: encodings\<close>

definition binary_encoding :: "stage list" where
  "binary_encoding =
     [map_column ''gender'' gender_codes,
      map_column ''Partner'' yes_no,
      map_column ''Dependents'' yes_no,
      map_column ''PhoneService'' yes_no,
      map_column ''PaperlessBilling'' yes_no]"

definition no_service :: "stage list" where
  "no_service =
     [replace_column ''MultipleLines'' ''No phone service'' ''No'',
      replace_column ''OnlineSecurity'' ''No internet service'' ''No'',
      replace_column ''OnlineBackup'' ''No internet service'' ''No'',
      replace_column ''DeviceProtection'' ''No internet service'' ''No'',
      replace_column ''TechSupport'' ''No internet service'' ''No'',
      replace_column ''StreamingTV'' ''No internet service'' ''No'',
      replace_column ''StreamingMovies'' ''No internet service'' ''No'',
      map_column ''MultipleLines'' yes_no,
      map_column ''OnlineSecurity'' yes_no,
      map_column ''OnlineBackup'' yes_no,
      map_column ''DeviceProtection'' yes_no,
      map_column ''TechSupport'' yes_no,
      map_column ''StreamingTV'' yes_no,
      map_column ''StreamingMovies'' yes_no]"

definition ordinal_encoding :: "stage list" where
  "ordinal_encoding =
     [map_column ''Contract'' contract_codes]"

definition one_hot_encoding :: "runtime \<Rightarrow> stage list" where
  "one_hot_encoding rt = [get_dummies rt [''InternetService'', ''PaymentMethod''] True]"

subsection \<open>Step 5: feature engineering\<close>

definition ensure_numeric :: "runtime \<Rightarrow> stage list" where
  "ensure_numeric rt =
     [to_numeric_column rt ''tenure'',
      to_numeric_column rt ''MonthlyCharges'',
      to_numeric_column rt ''TotalCharges'',
      to_numeric_column rt ''SeniorCitizen'']"

definition is_new_customer :: stage where
  "is_new_customer df =
     and_then (getnum ''tenure'' df) (\<lambda>t.
       Inr (setcol ''IsNewCustomer'' (flag (fle t (Fin 12))) df))"

definition is_established :: stage where
  "is_established df =
     and_then (getnum ''tenure'' df) (\<lambda>t.
       Inr (setcol ''IsEstablished'' (flag (fgt t (Fin 12) \<and> fle t (Fin 24))) df))"

definition is_loyal_customer :: stage where
  "is_loyal_customer df =
     and_then (getnum ''tenure'' df) (\<lambda>t.
       Inr (setcol ''IsLoyalCustomer'' (flag (fgt t (Fin 48))) df))"

definition charge_per_tenure_month :: stage where
  "charge_per_tenure_month df =
     and_then (getnum ''TotalCharges'' df) (\<lambda>tc.
     and_then (getnum ''tenure'' df) (\<lambda>t.
       Inr (setcol ''ChargePerTenureMonth'' (Num (fdiv tc (fadd t (Fin 1)))) df)))"

definition is_high_spender :: stage where
  "is_high_spender df =
     and_then (getnum ''MonthlyCharges'' df) (\<lambda>mc.
       Inr (setcol ''IsHighSpender'' (flag (fgt mc (Fin 70))) df))"

definition charge_tenure_ratio :: stage where
  "charge_tenure_ratio df =
     and_then (getnum ''MonthlyCharges'' df) (\<lambda>mc.
     and_then (getnum ''tenure'' df) (\<lambda>t.
       Inr (setcol ''ChargeTenureRatio'' (Num (fdiv mc (fadd t (Fin 1)))) df)))"

text \<open>
  \<open>1 if c in df.columns and df[c].iloc[0] == 1 else 0\<close>, the pattern of
  \<open>has_internet_no\<close>, \<open>has_fiber\<close>, \<open>has_echeck\<close>, \<open>has_bank\<close> and \<open>has_cc\<close>.
\<close>

definition has_indicator :: "string \<Rightarrow> frame \<Rightarrow> int" where
  "has_indicator c df =
     (case map_of df c of None \<Rightarrow> 0 | Some v \<Rightarrow> if v = Num (Fin 1) then 1 else 0)"

definition total_services :: "int \<Rightarrow> stage" where
  "total_services has_internet_no df =
     and_then (getnum ''PhoneService'' df) (\<lambda>phone.
     and_then (getnum ''OnlineSecurity'' df) (\<lambda>security.
     and_then (getnum ''OnlineBackup'' df) (\<lambda>backup.
     and_then (getnum ''DeviceProtection'' df) (\<lambda>protection.
     and_then (getnum ''TechSupport'' df) (\<lambda>support.
     and_then (getnum ''StreamingTV'' df) (\<lambda>tv.
     and_then (getnum ''StreamingMovies'' df) (\<lambda>movies.
       Inr (setcol ''TotalServices''
         (Num (fadd (fadd (fadd (fadd (fadd (fadd (fadd phone
            (Fin (of_int (1 - has_internet_no)))) security) backup) protection)
            support) tv) movies)) df))))))))"

definition service_density :: stage where
  "service_density df =
     and_then (getnum ''TotalServices'' df) (\<lambda>n.
     and_then (getnum ''tenure'' df) (\<lambda>t.
       Inr (setcol ''ServiceDensity'' (Num (fdiv n (fadd t (Fin 1)))) df)))"

definition has_minimal_services :: stage where
  "has_minimal_services df =
     and_then (getnum ''TotalServices'' df) (\<lambda>n.
       Inr (setcol ''HasMinimalServices'' (flag (fle n (Fin 2))) df))"

definition high_risk_profile :: "int \<Rightarrow> int \<Rightarrow> stage" where
  "high_risk_profile has_fiber has_echeck df =
     and_then
       (and_also (col_eq ''Contract'' 0 df)
          (and_also (Inr (has_fiber = 1)) (Inr (has_echeck = 1))))
       (\<lambda>b. Inr (setcol ''HighRiskProfile'' (flag b) df))"

definition senior_no_support :: stage where
  "senior_no_support df =
     and_then (and_also (col_eq ''SeniorCitizen'' 1 df) (col_eq ''TechSupport'' 0 df))
       (\<lambda>b. Inr (setcol ''SeniorNoSupport'' (flag b) df))"

definition single_no_family :: stage where
  "single_no_family df =
     and_then (and_also (col_eq ''Partner'' 0 df) (col_eq ''Dependents'' 0 df))
       (\<lambda>b. Inr (setcol ''SingleNoFamily'' (flag b) df))"

definition new_high_spender :: stage where
  "new_high_spender df =
     and_then (and_also (col_le ''tenure'' 12 df) (col_gt ''MonthlyCharges'' 70 df))
       (\<lambda>b. Inr (setcol ''NewHighSpender'' (flag b) df))"

definition paperless_electronic_check :: "int \<Rightarrow> stage" where
  "paperless_electronic_check has_echeck df =
     and_then (and_also (col_eq ''PaperlessBilling'' 1 df) (Inr (has_echeck = 1)))
       (\<lambda>b. Inr (setcol ''PaperlessElectronicCheck'' (flag b) df))"

definition has_auto_pay :: "int \<Rightarrow> int \<Rightarrow> stage" where
  "has_auto_pay has_bank has_cc df =
     Inr (setcol ''HasAutoPay'' (flag (has_bank = 1 \<or> has_cc = 1)) df)"

definition fiber_no_addons :: "int \<Rightarrow> stage" where
  "fiber_no_addons has_fiber df =
     and_then
       (and_also (Inr (has_fiber = 1))
          (and_also (col_eq ''OnlineSecurity'' 0 df) (col_eq ''TechSupport'' 0 df)))
       (\<lambda>b. Inr (setcol ''FiberNoAddons'' (flag b) df))"

text \<open>
  The derived features, in the order of the source; each local variable is computed
  from the frame at the point where the source computes it.
\<close>

definition derived_features :: stage where
  "derived_features df0 =
     and_then
       (chain [is_new_customer, is_established, is_loyal_customer,
               charge_per_tenure_month, is_high_spender, charge_tenure_ratio] df0)
       (\<lambda>df1.
     let has_internet_no = has_indicator ''InternetService_No'' df1 in
     and_then
       (chain [total_services has_internet_no, service_density, has_minimal_services] df1)
       (\<lambda>df2.
     let has_fiber = has_indicator ''InternetService_Fiber optic'' df2;
         has_echeck = has_indicator ''PaymentMethod_Electronic check'' df2 in
     and_then
       (chain [high_risk_profile has_fiber has_echeck, senior_no_support,
               single_no_family, new_high_spender,
               paperless_electronic_check has_echeck] df2)
       (\<lambda>df3.
     let has_bank = has_indicator ''PaymentMethod_Bank transfer (automatic)'' df3;
         has_cc = has_indicator ''PaymentMethod_Credit card (automatic)'' df3 in
     chain [has_auto_pay has_bank has_cc, fiber_no_addons has_fiber] df3)))"

subsection \<open>Step 6: scaling\<close>

text \<open>
  The fitted scaler is an opaque artifact: \<open>scaler.transform\<close> maps the one row of the
  three columns to a row of three numbers, or raises (\<open>None\<close>).
\<close>

type_synonym scaler = "num \<times> num \<times> num \<Rightarrow> (num \<times> num \<times> num) option"

definition scaling :: "scaler \<Rightarrow> stage" where
  "scaling sc df =
     and_then (getnum ''tenure'' df) (\<lambda>t.
     and_then (getnum ''MonthlyCharges'' df) (\<lambda>mc.
     and_then (getnum ''TotalCharges'' df) (\<lambda>tc.
       case sc (t, mc, tc) of
         None \<Rightarrow> Inl ScalerError
       | Some (t', mc', tc') \<Rightarrow>
           Inr (setcol ''TotalCharges'' (Num tc')
                 (setcol ''MonthlyCharges'' (Num mc')
                   (setcol ''tenure'' (Num t') df))))))"

subsection \<open>Step 7: column order and missing columns\<close>

definition expected_columns :: "string list" where
  "expected_columns =
     [''gender'', ''SeniorCitizen'', ''Partner'', ''Dependents'', ''tenure'',
      ''PhoneService'', ''MultipleLines'', ''OnlineSecurity'', ''OnlineBackup'',
      ''DeviceProtection'', ''TechSupport'', ''StreamingTV'', ''StreamingMovies'',
      ''Contract'', ''PaperlessBilling'', ''MonthlyCharges'', ''TotalCharges'',
      ''IsNewCustomer'', ''IsEstablished'', ''IsLoyalCustomer'',
      ''ChargePerTenureMonth'', ''IsHighSpender'', ''ChargeTenureRatio'',
      ''TotalServices'', ''ServiceDensity'', ''HasMinimalServices'',
      ''HighRiskProfile'', ''SeniorNoSupport'', ''SingleNoFamily'',
      ''NewHighSpender'', ''PaperlessElectronicCheck'', ''HasAutoPay'',
      ''FiberNoAddons'', ''InternetService_Fiber optic'', ''InternetService_No'',
      ''PaymentMethod_Credit card (automatic)'', ''PaymentMethod_Electronic check'',
      ''PaymentMethod_Mailed check'']"

text \<open>\<open>for col in cols: if col not in df.columns: df[col] = 0\<close>\<close>

fun add_missing :: "string list \<Rightarrow> frame \<Rightarrow> frame" where
  "add_missing [] df = df"
| "add_missing (c # cs) df =
     add_missing cs (if map_of df c = None then setcol c (Num (Fin 0)) df else df)"

text \<open>\<open>df[cols]\<close>: the listed columns in the listed order; KeyError when one is missing.\<close>

fun select_columns :: "string list \<Rightarrow> frame \<Rightarrow> error + frame" where
  "select_columns [] df = Inr []"
| "select_columns (c # cs) df =
     and_then (getcol c df) (\<lambda>v.
     and_then (select_columns cs df) (\<lambda>rest. Inr ((c, v) # rest)))"

definition align_columns :: stage where
  "align_columns df = select_columns expected_columns (add_missing expected_columns df)"

subsection \<open>The whole transform\<close>

text \<open>Steps 1 to 4 and the numeric conversion that opens step 5.\<close>

definition encoding_steps :: "runtime \<Rightarrow> stage list" where
  "encoding_steps rt =
     binary_encoding @ no_service @ ordinal_encoding @ one_hot_encoding rt @ ensure_numeric rt"

text \<open>Steps 1 to 6: the intermediate frame that step 7 aligns.\<close>

definition transform_steps :: "runtime \<Rightarrow> frame \<Rightarrow> scaler \<Rightarrow> error + frame" where
  "transform_steps rt df sc = chain (encoding_steps rt @ [derived_features, scaling sc]) df"

definition preprocess_input :: "runtime \<Rightarrow> frame \<Rightarrow> scaler \<Rightarrow> error + frame" where
  "preprocess_input rt df sc = and_then (transform_steps rt df sc) align_columns"

section \<open>The decision and the risk tier of the form handler\<close>

datatype risk_tier = LOW | MEDIUM | HIGH

definition will_churn :: "real \<Rightarrow> real \<Rightarrow> int" where
  "will_churn churn_probability threshold = (if churn_probability \<ge> threshold then 1 else 0)"

definition risk_class :: "real \<Rightarrow> risk_tier" where
  "risk_class churn_probability =
     (if churn_probability \<ge> 0.7 then HIGH
      else if churn_probability \<ge> 0.4 then MEDIUM
      else LOW)"

text \<open>What the handler derives from the classifier's probability and the stored threshold.\<close>

definition assess :: "real \<Rightarrow> real \<Rightarrow> int \<times> risk_tier" where
  "assess churn_probability threshold =
     (will_churn churn_probability threshold, risk_class churn_probability)"

section \<open>Closed forms and example artifacts used to state the results\<close>

text \<open>The value of a column of the result; \<open>None\<close> when the transform raised.\<close>

definition value_of :: "error + frame \<Rightarrow> string \<Rightarrow> cell option" where
  "value_of res c = (case res of Inl e \<Rightarrow> None | Inr out \<Rightarrow> map_of out c)"

text \<open>
  An add-on column after the sentinel has been replaced and the column mapped.
\<close>

definition service_flag :: "string \<Rightarrow> cell \<Rightarrow> num" where
  "service_flag sentinel v = map_dict yes_no (if v = Str sentinel then Str ''No'' else v)"

text \<open>The frame after steps 1 to 4.\<close>

definition encoded_frame :: "raw_record \<Rightarrow> frame" where
  "encoded_frame r =
     [(''Contract'', Num (map_dict contract_codes (Contract r))),
      (''tenure'', tenure r),
      (''MonthlyCharges'', MonthlyCharges r),
      (''TotalCharges'', TotalCharges r),
      (''PaperlessBilling'', Num (map_dict yes_no (PaperlessBilling r))),
      (''OnlineSecurity'', Num (service_flag ''No internet service'' (OnlineSecurity r))),
      (''TechSupport'', Num (service_flag ''No internet service'' (TechSupport r))),
      (''gender'', Num (map_dict gender_codes (gender r))),
      (''SeniorCitizen'', SeniorCitizen r),
      (''Partner'', Num (map_dict yes_no (Partner r))),
      (''Dependents'', Num (map_dict yes_no (Dependents r))),
      (''PhoneService'', Num (map_dict yes_no (PhoneService r))),
      (''MultipleLines'', Num (service_flag ''No phone service'' (MultipleLines r))),
      (''OnlineBackup'', Num (service_flag ''No internet service'' (OnlineBackup r))),
      (''DeviceProtection'', Num (service_flag ''No internet service'' (DeviceProtection r))),
      (''StreamingTV'', Num (service_flag ''No internet service'' (StreamingTV r))),
      (''StreamingMovies'', Num (service_flag ''No internet service'' (StreamingMovies r)))]"

text \<open>
  The sum the transform stores in \<open>TotalServices\<close>: the second summand, the internet
  slot \<open>1 - has_internet_no\<close>, is the constant 1.
\<close>

definition counted_services :: "raw_record \<Rightarrow> num" where
  "counted_services r =
     fadd (fadd (fadd (fadd (fadd (fadd (fadd
       (map_dict yes_no (PhoneService r))
       (Fin 1))
       (service_flag ''No internet service'' (OnlineSecurity r)))
       (service_flag ''No internet service'' (OnlineBackup r)))
       (service_flag ''No internet service'' (DeviceProtection r)))
       (service_flag ''No internet service'' (TechSupport r)))
       (service_flag ''No internet service'' (StreamingTV r)))
       (service_flag ''No internet service'' (StreamingMovies r))"

text \<open>
  The 38 columns the transform returns for the record \<open>r\<close>, given the numbers
  \<open>t\<close>, \<open>mc\<close>, \<open>tc\<close>, \<open>sen\<close> that \<open>pd.to_numeric\<close> makes of its four numeric fields
  and the row \<open>(t', mc', tc')\<close> that the scaler returns.
\<close>

definition feature_vector ::
  "raw_record \<Rightarrow> num \<Rightarrow> num \<Rightarrow> num \<Rightarrow> num \<Rightarrow> num \<Rightarrow> num \<Rightarrow> num \<Rightarrow> frame" where
  "feature_vector r t mc tc sen t' mc' tc' =
     [(''gender'', Num (map_dict gender_codes (gender r))),
      (''SeniorCitizen'', Num sen),
      (''Partner'', Num (map_dict yes_no (Partner r))),
      (''Dependents'', Num (map_dict yes_no (Dependents r))),
      (''tenure'', Num t'),
      (''PhoneService'', Num (map_dict yes_no (PhoneService r))),
      (''MultipleLines'', Num (service_flag ''No phone service'' (MultipleLines r))),
      (''OnlineSecurity'', Num (service_flag ''No internet service'' (OnlineSecurity r))),
      (''OnlineBackup'', Num (service_flag ''No internet service'' (OnlineBackup r))),
      (''DeviceProtection'', Num (service_flag ''No internet service'' (DeviceProtection r))),
      (''TechSupport'', Num (service_flag ''No internet service'' (TechSupport r))),
      (''StreamingTV'', Num (service_flag ''No internet service'' (StreamingTV r))),
      (''StreamingMovies'', Num (service_flag ''No internet service'' (StreamingMovies r))),
      (''Contract'', Num (map_dict contract_codes (Contract r))),
      (''PaperlessBilling'', Num (map_dict yes_no (PaperlessBilling r))),
      (''MonthlyCharges'', Num mc'),
      (''TotalCharges'', Num tc'),
      (''IsNewCustomer'', flag (fle t (Fin 12))),
      (''IsEstablished'', flag (fgt t (Fin 12) \<and> fle t (Fin 24))),
      (''IsLoyalCustomer'', flag (fgt t (Fin 48))),
      (''ChargePerTenureMonth'', Num (fdiv tc (fadd t (Fin 1)))),
      (''IsHighSpender'', flag (fgt mc (Fin 70))),
      (''ChargeTenureRatio'', Num (fdiv mc (fadd t (Fin 1)))),
      (''TotalServices'', Num (counted_services r)),
      (''ServiceDensity'', Num (fdiv (counted_services r) (fadd t (Fin 1)))),
      (''HasMinimalServices'', flag (fle (counted_services r) (Fin 2))),
      (''HighRiskProfile'', flag False),
      (''SeniorNoSupport'',
         flag (sen = Fin 1 \<and> service_flag ''No internet service'' (TechSupport r) = Fin 0)),
      (''SingleNoFamily'',
         flag (map_dict yes_no (Partner r) = Fin 0 \<and> map_dict yes_no (Dependents r) = Fin 0)),
      (''NewHighSpender'', flag (fle t (Fin 12) \<and> fgt mc (Fin 70))),
      (''PaperlessElectronicCheck'', flag False),
      (''HasAutoPay'', flag False),
      (''FiberNoAddons'', flag False),
      (''InternetService_Fiber optic'', Num (Fin 0)),
      (''InternetService_No'', Num (Fin 0)),
      (''PaymentMethod_Credit card (automatic)'', Num (Fin 0)),
      (''PaymentMethod_Electronic check'', Num (Fin 0)),
      (''PaymentMethod_Mailed check'', Num (Fin 0))]"

text \<open>
  Example artifacts for the concrete instances: a parser that accepts unsigned decimal
  integers, a standard scaler \<open>(x - mean) / scale\<close> per column, and the name given to
  a numeric level.
\<close>

definition example_parse :: "string \<Rightarrow> num option" where
  "example_parse s =
     (if s \<noteq> [] \<and> list_all (\<lambda>c. List.member ''0123456789'' c) s
      then Some (Fin (of_nat (foldl (\<lambda>n c. 10 * n + (of_char c - 48)) (0::nat) s)))
      else None)"

definition example_runtime :: runtime where
  "example_runtime = \<lparr> parse_number = example_parse, level_name = (\<lambda>x. ''number'') \<rparr>"

definition example_scaler :: scaler where
  "example_scaler =
     (\<lambda>(t, mc, tc).
        Some (fdiv (fadd t (Fin (- 32))) (Fin 24),
              fdiv (fadd mc (Fin (- 65))) (Fin 30),
              fdiv (fadd tc (Fin (- 2280))) (Fin 2266)))"

text \<open>
  \<open>pd.to_numeric\<close> on the four numeric columns, in the order of the source: the first
  string that is not a number raises.
\<close>

definition numeric_conversion :: "runtime \<Rightarrow> raw_record \<Rightarrow> error + (num \<times> num \<times> num \<times> num)" where
  "numeric_conversion rt r =
     and_then (to_numeric rt (tenure r)) (\<lambda>t.
     and_then (to_numeric rt (MonthlyCharges r)) (\<lambda>mc.
     and_then (to_numeric rt (TotalCharges r)) (\<lambda>tc.
     and_then (to_numeric rt (SeniorCitizen r)) (\<lambda>sen. Inr (t, mc, tc, sen)))))"

text \<open>
  The fields that \<open>Series.map\<close> encodes, each with its column, its raw value and the
  enumeration the data model documents for it (the sentinel included for the add-ons).
\<close>

definition categorical_fields :: "raw_record \<Rightarrow> (string \<times> cell \<times> string list) list" where
  "categorical_fields r =
     [(''gender'', gender r, [''Female'', ''Male'']),
      (''Partner'', Partner r, [''Yes'', ''No'']),
      (''Dependents'', Dependents r, [''Yes'', ''No'']),
      (''PhoneService'', PhoneService r, [''Yes'', ''No'']),
      (''PaperlessBilling'', PaperlessBilling r, [''Yes'', ''No'']),
      (''MultipleLines'', MultipleLines r, [''Yes'', ''No'', ''No phone service'']),
      (''OnlineSecurity'', OnlineSecurity r, [''Yes'', ''No'', ''No internet service'']),
      (''OnlineBackup'', OnlineBackup r, [''Yes'', ''No'', ''No internet service'']),
      (''DeviceProtection'', DeviceProtection r, [''Yes'', ''No'', ''No internet service'']),
      (''TechSupport'', TechSupport r, [''Yes'', ''No'', ''No internet service'']),
      (''StreamingTV'', StreamingTV r, [''Yes'', ''No'', ''No internet service'']),
      (''StreamingMovies'', StreamingMovies r, [''Yes'', ''No'', ''No internet service'']),
      (''Contract'', Contract r, [''Month-to-month'', ''One year'', ''Two year''])]"

text \<open>
  Two records of the form handler: a month-to-month fiber customer paying by electronic
  check, and a customer without internet service.
\<close>

definition fiber_record :: raw_record where
  "fiber_record =
     input_dict ''Month-to-month'' ''Fiber optic'' 3 95 ''Electronic check'' ''Yes'' ''No'' ''No''"

definition no_internet_record :: raw_record where
  "no_internet_record =
     input_dict ''Two year'' ''No'' 24 20 ''Mailed check'' ''No'' ''No'' ''No''"

section \<open>Evaluating the transform on a record\<close>

lemma and_also_Inr: "and_also (Inr a) (Inr b) = Inr (a \<and> b)"
  by (cases a) simp_all

lemma chain_append: "chain (fs @ gs) df = and_then (chain fs df) (chain gs)"
proof (induction fs arbitrary: df)
  case Nil
  show ?case by simp
next
  case (Cons f fs)
  show ?case by (cases "f df") (simp_all add: Cons.IH)
qed

text \<open>
  On a one-row frame the column has at most one level, and \<open>drop_first\<close> removes it:
  no indicator column is ever made.
\<close>

lemma get_dummies_1d_one_row: "get_dummies_1d rt prefix True v = []"
  by (simp add: get_dummies_1d_def levels_def)

lemma steps_1_to_4:
  "chain (binary_encoding @ no_service @ ordinal_encoding @ one_hot_encoding rt) (input_df r)
     = Inr (encoded_frame r)"
  by (simp add: binary_encoding_def no_service_def ordinal_encoding_def one_hot_encoding_def
      input_df_def encoded_frame_def service_flag_def map_column_def replace_column_def
      get_dummies_def get_dummies_1d_one_row getcol_def setcol_def)

lemma ensure_numeric_encoded:
  "chain (ensure_numeric rt) (encoded_frame r) =
     and_then (to_numeric rt (tenure r)) (\<lambda>t.
     and_then (to_numeric rt (MonthlyCharges r)) (\<lambda>mc.
     and_then (to_numeric rt (TotalCharges r)) (\<lambda>tc.
     and_then (to_numeric rt (SeniorCitizen r)) (\<lambda>sen.
       Inr (setcol ''SeniorCitizen'' (Num sen)
             (setcol ''TotalCharges'' (Num tc)
               (setcol ''MonthlyCharges'' (Num mc)
                 (setcol ''tenure'' (Num t) (encoded_frame r)))))))))"
  by (cases "to_numeric rt (tenure r)"; cases "to_numeric rt (MonthlyCharges r)";
      cases "to_numeric rt (TotalCharges r)"; cases "to_numeric rt (SeniorCitizen r)")
     (simp_all add: ensure_numeric_def to_numeric_column_def encoded_frame_def getcol_def
        setcol_def)

lemmas feature_defs =
  is_new_customer_def is_established_def is_loyal_customer_def charge_per_tenure_month_def
  is_high_spender_def charge_tenure_ratio_def has_indicator_def total_services_def
  service_density_def has_minimal_services_def high_risk_profile_def senior_no_support_def
  single_no_family_def new_high_spender_def paperless_electronic_check_def has_auto_pay_def
  fiber_no_addons_def col_eq_def col_le_def col_gt_def

subsection \<open>Column alignment on any frame\<close>

lemma map_of_add_missing:
  "map_of (add_missing cs df) c =
     (if c \<in> set cs \<and> map_of df c = None then Some (Num (Fin 0)) else map_of df c)"
  by (induction cs arbitrary: df) (auto simp add: setcol_def update_conv')

lemma select_columns_present:
  "(\<And>c. c \<in> set cs \<Longrightarrow> map_of df c = Some (f c)) \<Longrightarrow>
     select_columns cs df = Inr (map (\<lambda>c. (c, f c)) cs)"
  by (induction cs) (simp_all add: getcol_def)

lemma align_columns_closed:
  "align_columns df =
     Inr (map (\<lambda>c. (c, case map_of df c of None \<Rightarrow> Num (Fin 0) | Some v \<Rightarrow> v))
            expected_columns)"
  unfolding align_columns_def
  by (rule select_columns_present) (auto simp add: map_of_add_missing split: option.splits)

lemma scaling_frame:
  assumes "scaling sc df = Inr df'"
  shows "map fst df' = map fst df"
    and "c \<noteq> ''tenure'' \<Longrightarrow> c \<noteq> ''MonthlyCharges'' \<Longrightarrow> c \<noteq> ''TotalCharges'' \<Longrightarrow>
         map_of df' c = map_of df c"
proof -
  from assms obtain t mc tc t' mc' tc' where
    cols: "map_of df ''tenure'' = Some (Num t)" "map_of df ''MonthlyCharges'' = Some (Num mc)"
      "map_of df ''TotalCharges'' = Some (Num tc)"
    and df': "df' = setcol ''TotalCharges'' (Num tc')
        (setcol ''MonthlyCharges'' (Num mc') (setcol ''tenure'' (Num t') df))"
    by (auto simp add: scaling_def getnum_def getcol_def split: option.splits cell.splits)
  have keys: "\<And>k v al. map_of al k \<noteq> None \<Longrightarrow> map fst (AList.update k v al) = map fst al"
    by (simp add: update_keys map_of_eq_None_iff)
  show "map fst df' = map fst df"
    unfolding df' setcol_def using cols by (simp add: keys update_conv')
  show "c \<noteq> ''tenure'' \<Longrightarrow> c \<noteq> ''MonthlyCharges'' \<Longrightarrow> c \<noteq> ''TotalCharges'' \<Longrightarrow>
      map_of df' c = map_of df c"
    unfolding df' setcol_def by (simp add: update_conv')
qed

subsection \<open>The transform on the frame of a record\<close>

lemma after_numeric:
  "and_then
     (chain [derived_features, scaling sc]
        (setcol ''SeniorCitizen'' (Num sen)
          (setcol ''TotalCharges'' (Num tc)
            (setcol ''MonthlyCharges'' (Num mc)
              (setcol ''tenure'' (Num t) (encoded_frame r))))))
     align_columns =
   (case sc (t, mc, tc) of
      None \<Rightarrow> Inl ScalerError
    | Some (t', mc', tc') \<Rightarrow> Inr (feature_vector r t mc tc sen t' mc' tc'))"
  by (cases "sc (t, mc, tc)")
     (simp_all add: derived_features_def feature_defs scaling_def align_columns_def
        expected_columns_def encoded_frame_def feature_vector_def counted_services_def
        getcol_def getnum_def setcol_def and_also_Inr Let_def split: prod.splits)

lemma preprocess_input_record:
  "preprocess_input rt (input_df r) sc =
     and_then (to_numeric rt (tenure r)) (\<lambda>t.
     and_then (to_numeric rt (MonthlyCharges r)) (\<lambda>mc.
     and_then (to_numeric rt (TotalCharges r)) (\<lambda>tc.
     and_then (to_numeric rt (SeniorCitizen r)) (\<lambda>sen.
       case sc (t, mc, tc) of
         None \<Rightarrow> Inl ScalerError
       | Some (t', mc', tc') \<Rightarrow> Inr (feature_vector r t mc tc sen t' mc' tc')))))"
proof -
  have split: "encoding_steps rt @ [derived_features, scaling sc] =
      (binary_encoding @ no_service @ ordinal_encoding @ one_hot_encoding rt) @
      (ensure_numeric rt @ [derived_features, scaling sc])"
    by (simp add: encoding_steps_def)
  have "transform_steps rt (input_df r) sc =
      and_then (chain (ensure_numeric rt) (encoded_frame r))
        (chain [derived_features, scaling sc])"
    unfolding transform_steps_def split
    by (simp only: chain_append [of "binary_encoding @ no_service @ ordinal_encoding @ one_hot_encoding rt"]
        chain_append [of "ensure_numeric rt"] steps_1_to_4 and_then.simps)
  then show ?thesis
    unfolding preprocess_input_def ensure_numeric_encoded
    by (cases "to_numeric rt (tenure r)"; cases "to_numeric rt (MonthlyCharges r)";
        cases "to_numeric rt (TotalCharges r)"; cases "to_numeric rt (SeniorCitizen r)")
       (simp_all only: and_then.simps after_numeric)
qed

lemma preprocess_input_converted:
  assumes "numeric_conversion rt r = Inr (t, mc, tc, sen)" and "sc (t, mc, tc) = Some (t', mc', tc')"
  shows "preprocess_input rt (input_df r) sc = Inr (feature_vector r t mc tc sen t' mc' tc')"
  using assms unfolding preprocess_input_record numeric_conversion_def
  by (cases "to_numeric rt (tenure r)"; cases "to_numeric rt (MonthlyCharges r)";
      cases "to_numeric rt (TotalCharges r)"; cases "to_numeric rt (SeniorCitizen r)") simp_all

lemma preprocess_input_returns:
  assumes "preprocess_input rt (input_df r) sc = Inr out"
  obtains t mc tc sen t' mc' tc' where
    "numeric_conversion rt r = Inr (t, mc, tc, sen)" "sc (t, mc, tc) = Some (t', mc', tc')"
    "out = feature_vector r t mc tc sen t' mc' tc'"
  using assms unfolding preprocess_input_record numeric_conversion_def
  by (cases "to_numeric rt (tenure r)"; cases "to_numeric rt (MonthlyCharges r)";
      cases "to_numeric rt (TotalCharges r)"; cases "to_numeric rt (SeniorCitizen r)")
     (auto split: option.splits)

lemma preprocess_input_raises:
  assumes "numeric_conversion rt r = Inl e"
  shows "chain (encoding_steps rt) (input_df r) = Inl e"
    and "preprocess_input rt (input_df r) sc = Inl e"
proof -
  have split: "encoding_steps rt =
      (binary_encoding @ no_service @ ordinal_encoding @ one_hot_encoding rt) @ ensure_numeric rt"
    by (simp add: encoding_steps_def)
  have "chain (encoding_steps rt) (input_df r) = chain (ensure_numeric rt) (encoded_frame r)"
    unfolding split
    by (simp only: chain_append [of "binary_encoding @ no_service @ ordinal_encoding @ one_hot_encoding rt"]
        steps_1_to_4 and_then.simps)
  with assms show "chain (encoding_steps rt) (input_df r) = Inl e"
    unfolding ensure_numeric_encoded numeric_conversion_def
    by (cases "to_numeric rt (tenure r)"; cases "to_numeric rt (MonthlyCharges r)";
        cases "to_numeric rt (TotalCharges r)"; cases "to_numeric rt (SeniorCitizen r)") simp_all
  from assms show "preprocess_input rt (input_df r) sc = Inl e"
    unfolding preprocess_input_record numeric_conversion_def
    by (cases "to_numeric rt (tenure r)"; cases "to_numeric rt (MonthlyCharges r)";
        cases "to_numeric rt (TotalCharges r)"; cases "to_numeric rt (SeniorCitizen r)") simp_all
qed

lemma feature_vector_names: "map fst (feature_vector r t mc tc sen t' mc' tc') = expected_columns"
  by (simp add: feature_vector_def expected_columns_def)

lemma feature_vector_lookup:
  fixes r t mc tc sen t' mc' tc'
  defines "fv \<equiv> map_of (feature_vector r t mc tc sen t' mc' tc')"
  shows "fv ''gender'' = Some (Num (map_dict gender_codes (gender r)))"
    and "fv ''SeniorCitizen'' = Some (Num sen)"
    and "fv ''Partner'' = Some (Num (map_dict yes_no (Partner r)))"
    and "fv ''Dependents'' = Some (Num (map_dict yes_no (Dependents r)))"
    and "fv ''tenure'' = Some (Num t')"
    and "fv ''PhoneService'' = Some (Num (map_dict yes_no (PhoneService r)))"
    and "fv ''MultipleLines'' = Some (Num (service_flag ''No phone service'' (MultipleLines r)))"
    and "fv ''OnlineSecurity'' = Some (Num (service_flag ''No internet service'' (OnlineSecurity r)))"
    and "fv ''OnlineBackup'' = Some (Num (service_flag ''No internet service'' (OnlineBackup r)))"
    and "fv ''DeviceProtection'' = Some (Num (service_flag ''No internet service'' (DeviceProtection r)))"
    and "fv ''TechSupport'' = Some (Num (service_flag ''No internet service'' (TechSupport r)))"
    and "fv ''StreamingTV'' = Some (Num (service_flag ''No internet service'' (StreamingTV r)))"
    and "fv ''StreamingMovies'' = Some (Num (service_flag ''No internet service'' (StreamingMovies r)))"
    and "fv ''Contract'' = Some (Num (map_dict contract_codes (Contract r)))"
    and "fv ''PaperlessBilling'' = Some (Num (map_dict yes_no (PaperlessBilling r)))"
    and "fv ''MonthlyCharges'' = Some (Num mc')"
    and "fv ''TotalCharges'' = Some (Num tc')"
    and "fv ''IsNewCustomer'' = Some (flag (fle t (Fin 12)))"
    and "fv ''IsEstablished'' = Some (flag (fgt t (Fin 12) \<and> fle t (Fin 24)))"
    and "fv ''IsLoyalCustomer'' = Some (flag (fgt t (Fin 48)))"
    and "fv ''ChargePerTenureMonth'' = Some (Num (fdiv tc (fadd t (Fin 1))))"
    and "fv ''IsHighSpender'' = Some (flag (fgt mc (Fin 70)))"
    and "fv ''ChargeTenureRatio'' = Some (Num (fdiv mc (fadd t (Fin 1))))"
    and "fv ''TotalServices'' = Some (Num (counted_services r))"
    and "fv ''ServiceDensity'' = Some (Num (fdiv (counted_services r) (fadd t (Fin 1))))"
    and "fv ''HasMinimalServices'' = Some (flag (fle (counted_services r) (Fin 2)))"
    and "fv ''HighRiskProfile'' = Some (flag False)"
    and "fv ''NewHighSpender'' = Some (flag (fle t (Fin 12) \<and> fgt mc (Fin 70)))"
    and "fv ''PaperlessElectronicCheck'' = Some (flag False)"
    and "fv ''HasAutoPay'' = Some (flag False)"
    and "fv ''FiberNoAddons'' = Some (flag False)"
    and "fv ''InternetService_Fiber optic'' = Some (Num (Fin 0))"
    and "fv ''InternetService_No'' = Some (Num (Fin 0))"
    and "fv ''PaymentMethod_Credit card (automatic)'' = Some (Num (Fin 0))"
    and "fv ''PaymentMethod_Electronic check'' = Some (Num (Fin 0))"
    and "fv ''PaymentMethod_Mailed check'' = Some (Num (Fin 0))"
  unfolding fv_def feature_vector_def by simp_all

lemma example_scaler_finite:
  "example_scaler (Fin a, Fin b, Fin c) =
     Some (Fin ((a - 32) / 24), Fin ((b - 65) / 30), Fin ((c - 2280) / 2266))"
  by (simp add: example_scaler_def)

lemma input_dict_numeric:
  "numeric_conversion rt (input_dict c i t m p b s u) = Inr (Fin t, Fin m, Fin (t * m), Fin 0)"
  by (simp add: numeric_conversion_def input_dict_def to_numeric_def)

section \<open>Decision and risk tier\<close>

text \<open>
  C9. For every probability \<open>p\<close> the risk tier is LOW if \<open>p < 0.4\<close>, MEDIUM if
  \<open>0.4 \<le> p < 0.7\<close> and HIGH if \<open>p \<ge> 0.7\<close>; the binary decision is 1 exactly when
  \<open>p \<ge> threshold\<close>; the handler derives both, and the tier is the same for every
  threshold.
\<close>

theorem risk_tier_and_decision:
  "(p < 0.4 \<longrightarrow> risk_class p = LOW) \<and>
   (0.4 \<le> p \<and> p < 0.7 \<longrightarrow> risk_class p = MEDIUM) \<and>
   (0.7 \<le> p \<longrightarrow> risk_class p = HIGH) \<and>
   (will_churn p threshold = 1 \<longleftrightarrow> p \<ge> threshold) \<and>
   (will_churn p threshold = 0 \<longleftrightarrow> \<not> p \<ge> threshold) \<and>
   assess p threshold = (will_churn p threshold, risk_class p) \<and>
   snd (assess p threshold) = snd (assess p threshold')"
  by (simp add: risk_class_def will_churn_def assess_def)

theorem risk_tier_and_decision_witness:
  "risk_class (1 / 5) = LOW \<and> risk_class (1 / 2) = MEDIUM \<and> risk_class (9 / 10) = HIGH \<and>
   will_churn (1 / 2) (3 / 10) = 1 \<and> will_churn (1 / 5) (3 / 10) = 0"
proof -
  have low: "((1 / 5)::real) < 0.4" and high: "(0.7::real) \<le> 9 / 10"
    and mid: "(0.4::real) \<le> 1 / 2 \<and> ((1 / 2)::real) < 0.7"
    and yes: "((1 / 2)::real) \<ge> 3 / 10" and no: "\<not> ((1 / 5)::real) \<ge> 3 / 10"
    by simp_all
  from low risk_tier_and_decision [of "1 / 5" "3 / 10"] no
  have a: "risk_class (1 / 5) = LOW \<and> will_churn (1 / 5) (3 / 10) = 0" by blast
  from mid risk_tier_and_decision [of "1 / 2" "3 / 10"] yes
  have b: "risk_class (1 / 2) = MEDIUM \<and> will_churn (1 / 2) (3 / 10) = 1" by blast
  from high risk_tier_and_decision [of "9 / 10" "3 / 10"]
  have c: "risk_class (9 / 10) = HIGH" by blast
  from a b c show ?thesis by blast
qed

section \<open>The schema of the output\<close>

text \<open>
  C1. Whenever the transform returns, for any input frame, its output has exactly the
  38 expected columns in the documented order; an expected column that the intermediate
  frame (the result of steps 1 to 6) lacks holds 0, one that it has keeps its value, and
  no other column is left. For a record whose numeric fields convert and whose scaled
  row exists, the transform returns.
\<close>

theorem preprocess_input_schema:
  "(preprocess_input rt df sc = Inr out \<longrightarrow>
      map fst out = expected_columns \<and> length out = 38 \<and>
      (\<exists>mid. transform_steps rt df sc = Inr mid \<and>
         (\<forall>c\<in>set expected_columns.
            map_of out c = Some (case map_of mid c of None \<Rightarrow> Num (Fin 0) | Some v \<Rightarrow> v)) \<and>
         (\<forall>c. c \<notin> set expected_columns \<longrightarrow> map_of out c = None))) \<and>
   (numeric_conversion rt r = Inr (t, mc, tc, sen) \<and> sc (t, mc, tc) = Some row \<longrightarrow>
      (\<exists>res. preprocess_input rt (input_df r) sc = Inr res))"
proof (intro conjI impI)
  assume ret: "preprocess_input rt df sc = Inr out"
  then obtain mid where mid: "transform_steps rt df sc = Inr mid"
    and aligned: "align_columns mid = Inr out"
    unfolding preprocess_input_def by (cases "transform_steps rt df sc") simp_all
  from aligned have out: "out =
      map (\<lambda>c. (c, case map_of mid c of None \<Rightarrow> Num (Fin 0) | Some v \<Rightarrow> v)) expected_columns"
    by (simp add: align_columns_closed)
  show "map fst out = expected_columns"
    unfolding out by (simp add: comp_def)
  show "length out = 38"
    unfolding out by (simp add: expected_columns_def)
  have "\<forall>c\<in>set expected_columns.
      map_of out c = Some (case map_of mid c of None \<Rightarrow> Num (Fin 0) | Some v \<Rightarrow> v)"
    unfolding out by (simp add: map_of_map_restrict)
  moreover have "\<forall>c. c \<notin> set expected_columns \<longrightarrow> map_of out c = None"
    unfolding out by (simp add: map_of_map_restrict)
  ultimately show "\<exists>mid. transform_steps rt df sc = Inr mid \<and>
      (\<forall>c\<in>set expected_columns.
         map_of out c = Some (case map_of mid c of None \<Rightarrow> Num (Fin 0) | Some v \<Rightarrow> v)) \<and>
      (\<forall>c. c \<notin> set expected_columns \<longrightarrow> map_of out c = None)"
    using mid by blast
next
  assume "numeric_conversion rt r = Inr (t, mc, tc, sen) \<and> sc (t, mc, tc) = Some row"
  then show "\<exists>res. preprocess_input rt (input_df r) sc = Inr res"
    by (cases row) (auto simp add: preprocess_input_converted)
qed

theorem preprocess_input_schema_witness:
  "\<exists>out. preprocess_input example_runtime (input_df fiber_record) example_scaler = Inr out \<and>
     map fst out = expected_columns \<and> length out = 38 \<and>
     map_of out ''customerID'' = None"
proof -
  have conv: "numeric_conversion example_runtime fiber_record =
      Inr (Fin 3, Fin 95, Fin (3 * 95), Fin 0)"
    unfolding fiber_record_def by (rule input_dict_numeric)
  have scaled: "example_scaler (Fin 3, Fin 95, Fin (3 * 95)) =
      Some (Fin ((3 - 32) / 24), Fin ((95 - 65) / 30), Fin ((3 * 95 - 2280) / 2266))"
    by (rule example_scaler_finite)
  from conv scaled
    preprocess_input_schema [of example_runtime "input_df fiber_record" example_scaler _
      fiber_record "Fin 3" "Fin 95" "Fin (3 * 95)" "Fin 0"]
  obtain res where res: "preprocess_input example_runtime (input_df fiber_record) example_scaler = Inr res"
    by blast
  have extra: "''customerID'' \<notin> set expected_columns"
    by (simp add: expected_columns_def)
  from res extra
    preprocess_input_schema [of example_runtime "input_df fiber_record" example_scaler res]
  show ?thesis by blast
qed

section \<open>One-hot encoding on a one-row frame\<close>

text \<open>
  C10. On a one-row frame \<open>pd.get_dummies\<close> with \<open>drop_first=True\<close> makes no indicator
  column at all, for any prefix and any value. So whenever the transform returns for a
  record, the five indicator columns of the output are 0, and so is \<open>HasAutoPay\<close>.
\<close>

theorem one_hot_indicators_always_zero:
  assumes "preprocess_input rt (input_df r) sc = Inr out"
  shows "get_dummies_1d rt prefix True v = [] \<and>
    map_of out ''InternetService_Fiber optic'' = Some (Num (Fin 0)) \<and>
    map_of out ''InternetService_No'' = Some (Num (Fin 0)) \<and>
    map_of out ''PaymentMethod_Credit card (automatic)'' = Some (Num (Fin 0)) \<and>
    map_of out ''PaymentMethod_Electronic check'' = Some (Num (Fin 0)) \<and>
    map_of out ''PaymentMethod_Mailed check'' = Some (Num (Fin 0)) \<and>
    map_of out ''HasAutoPay'' = Some (Num (Fin 0))"
proof -
  from assms obtain t mc tc sen t' mc' tc' where
    "out = feature_vector r t mc tc sen t' mc' tc'"
    by (rule preprocess_input_returns)
  then show ?thesis
    by (simp add: feature_vector_lookup get_dummies_1d_one_row flag_def)
qed

theorem one_hot_indicators_always_zero_witness:
  "value_of (preprocess_input example_runtime
      (input_df (input_dict ''One year'' ''No'' 30 25 ''Credit card (automatic)'' ''No'' ''No'' ''No''))
      example_scaler) ''InternetService_No'' = Some (Num (Fin 0)) \<and>
   value_of (preprocess_input example_runtime
      (input_df (input_dict ''One year'' ''No'' 30 25 ''Credit card (automatic)'' ''No'' ''No'' ''No''))
      example_scaler) ''HasAutoPay'' = Some (Num (Fin 0))"
proof -
  let ?r = "input_dict ''One year'' ''No'' 30 25 ''Credit card (automatic)'' ''No'' ''No'' ''No''"
  have "preprocess_input example_runtime (input_df ?r) example_scaler =
      Inr (feature_vector ?r (Fin 30) (Fin 25) (Fin (30 * 25)) (Fin 0)
        (Fin ((30 - 32) / 24)) (Fin ((25 - 65) / 30)) (Fin ((30 * 25 - 2280) / 2266)))"
    by (rule preprocess_input_converted) (rule input_dict_numeric, rule example_scaler_finite)
  from this one_hot_indicators_always_zero [OF this]
  show ?thesis by (simp add: value_of_def)
qed

text \<open>
  C2. The code makes every indicator 0, also for a non-baseline category: for the fiber
  customer paying by electronic check, \<open>InternetService_Fiber optic\<close> and
  \<open>PaymentMethod_Electronic check\<close> are 0 in the output, where the claim has 1.
\<close>

theorem fiber_record_indicators:
  "value_of (preprocess_input example_runtime (input_df fiber_record) example_scaler)
     ''InternetService_Fiber optic'' = Some (Num (Fin 0)) \<and>
   value_of (preprocess_input example_runtime (input_df fiber_record) example_scaler)
     ''PaymentMethod_Electronic check'' = Some (Num (Fin 0))"
proof -
  have "preprocess_input example_runtime (input_df fiber_record) example_scaler =
      Inr (feature_vector fiber_record (Fin 3) (Fin 95) (Fin (3 * 95)) (Fin 0)
        (Fin ((3 - 32) / 24)) (Fin ((95 - 65) / 30)) (Fin ((3 * 95 - 2280) / 2266)))"
    unfolding fiber_record_def
    by (rule preprocess_input_converted) (rule input_dict_numeric, rule example_scaler_finite)
  then show ?thesis
    by (simp add: value_of_def feature_vector_lookup)
qed

text \<open>
  C3. For the record with Contract Month-to-month, InternetService Fiber optic and
  PaymentMethod Electronic check the code gives \<open>HighRiskProfile = 0\<close>, where the claim
  has 1.
\<close>

theorem fiber_record_high_risk_profile:
  "Contract fiber_record = Str ''Month-to-month'' \<and>
   InternetService fiber_record = Str ''Fiber optic'' \<and>
   PaymentMethod fiber_record = Str ''Electronic check'' \<and>
   value_of (preprocess_input example_runtime (input_df fiber_record) example_scaler)
     ''HighRiskProfile'' = Some (Num (Fin 0))"
proof -
  have "preprocess_input example_runtime (input_df fiber_record) example_scaler =
      Inr (feature_vector fiber_record (Fin 3) (Fin 95) (Fin (3 * 95)) (Fin 0)
        (Fin ((3 - 32) / 24)) (Fin ((95 - 65) / 30)) (Fin ((3 * 95 - 2280) / 2266)))"
    unfolding fiber_record_def
    by (rule preprocess_input_converted) (rule input_dict_numeric, rule example_scaler_finite)
  then show ?thesis
    by (simp add: value_of_def feature_vector_lookup flag_def)
       (simp add: fiber_record_def input_dict_def)
qed

text \<open>
  C5. For the customer without internet service, whose only service is the phone, the
  code stores \<open>TotalServices = 2\<close> and \<open>ServiceDensity = 2 / 25\<close>: the internet slot
  counts 1 although InternetService is No. The claim has 1 and \<open>1 / 25\<close>.
\<close>

theorem no_internet_record_total_services:
  "InternetService no_internet_record = Str ''No'' \<and>
   value_of (preprocess_input example_runtime (input_df no_internet_record) example_scaler)
     ''TotalServices'' = Some (Num (Fin 2)) \<and>
   value_of (preprocess_input example_runtime (input_df no_internet_record) example_scaler)
     ''ServiceDensity'' = Some (Num (Fin (2 / 25)))"
proof -
  have "preprocess_input example_runtime (input_df no_internet_record) example_scaler =
      Inr (feature_vector no_internet_record (Fin 24) (Fin 20) (Fin (24 * 20)) (Fin 0)
        (Fin ((24 - 32) / 24)) (Fin ((20 - 65) / 30)) (Fin ((24 * 20 - 2280) / 2266)))"
    unfolding no_internet_record_def
    by (rule preprocess_input_converted) (rule input_dict_numeric, rule example_scaler_finite)
  moreover have "counted_services no_internet_record = Fin 2"
    by (simp add: counted_services_def no_internet_record_def input_dict_def service_flag_def
        yes_no_def)
  moreover have "InternetService no_internet_record = Str ''No''"
    by (simp add: no_internet_record_def input_dict_def)
  ultimately show ?thesis
    by (simp add: value_of_def feature_vector_lookup)
qed

section \<open>Derived features of a record\<close>

text \<open>
  C8. For a record whose transform returns, with tenure \<open>x\<close>: \<open>IsNewCustomer\<close> is 1
  iff \<open>x \<le> 12\<close>, \<open>IsEstablished\<close> is 1 iff \<open>12 < x \<le> 24\<close>, \<open>IsLoyalCustomer\<close> is 1
  iff \<open>x > 48\<close>; every tenure in (24, 48] gives three zeros; and, for any tenure value,
  each flag is 0 or 1 and no two of them are 1.
\<close>

theorem tenure_flags:
  assumes "numeric_conversion rt r = Inr (t, mc, tc, sen)" and "sc (t, mc, tc) = Some (t', mc', tc')"
  shows "let res = preprocess_input rt (input_df r) sc;
             new = value_of res ''IsNewCustomer'';
             established = value_of res ''IsEstablished'';
             loyal = value_of res ''IsLoyalCustomer''
         in (\<forall>x. t = Fin x \<longrightarrow>
               (new = Some (Num (Fin 1)) \<longleftrightarrow> x \<le> 12) \<and>
               (established = Some (Num (Fin 1)) \<longleftrightarrow> 12 < x \<and> x \<le> 24) \<and>
               (loyal = Some (Num (Fin 1)) \<longleftrightarrow> 48 < x) \<and>
               (24 < x \<and> x \<le> 48 \<longrightarrow>
                  new = Some (Num (Fin 0)) \<and> established = Some (Num (Fin 0)) \<and>
                  loyal = Some (Num (Fin 0)))) \<and>
            (new = Some (Num (Fin 0)) \<or> new = Some (Num (Fin 1))) \<and>
            (established = Some (Num (Fin 0)) \<or> established = Some (Num (Fin 1))) \<and>
            (loyal = Some (Num (Fin 0)) \<or> loyal = Some (Num (Fin 1))) \<and>
            \<not> (new = Some (Num (Fin 1)) \<and> established = Some (Num (Fin 1))) \<and>
            \<not> (new = Some (Num (Fin 1)) \<and> loyal = Some (Num (Fin 1))) \<and>
            \<not> (established = Some (Num (Fin 1)) \<and> loyal = Some (Num (Fin 1)))"
proof -
  have res: "preprocess_input rt (input_df r) sc = Inr (feature_vector r t mc tc sen t' mc' tc')"
    using assms by (rule preprocess_input_converted)
  show ?thesis
    unfolding Let_def res value_of_def
    by (cases t) (auto simp add: feature_vector_lookup flag_def)
qed

theorem tenure_flags_witness:
  "value_of (preprocess_input example_runtime
      (input_df (input_dict ''One year'' ''DSL'' 30 50 ''Mailed check'' ''No'' ''No'' ''No''))
      example_scaler) ''IsNewCustomer'' = Some (Num (Fin 0)) \<and>
   value_of (preprocess_input example_runtime
      (input_df (input_dict ''One year'' ''DSL'' 30 50 ''Mailed check'' ''No'' ''No'' ''No''))
      example_scaler) ''IsEstablished'' = Some (Num (Fin 0)) \<and>
   value_of (preprocess_input example_runtime
      (input_df (input_dict ''One year'' ''DSL'' 30 50 ''Mailed check'' ''No'' ''No'' ''No''))
      example_scaler) ''IsLoyalCustomer'' = Some (Num (Fin 0))"
proof -
  have gap: "(24::real) < 30 \<and> (30::real) \<le> 48" by simp
  have conv: "numeric_conversion example_runtime
      (input_dict ''One year'' ''DSL'' 30 50 ''Mailed check'' ''No'' ''No'' ''No'') =
      Inr (Fin 30, Fin 50, Fin (30 * 50), Fin 0)"
    by (rule input_dict_numeric)
  have scaled: "example_scaler (Fin 30, Fin 50, Fin (30 * 50)) =
      Some (Fin ((30 - 32) / 24), Fin ((50 - 65) / 30), Fin ((30 * 50 - 2280) / 2266))"
    by (rule example_scaler_finite)
  from gap tenure_flags [where sc = example_scaler, OF conv scaled]
  show ?thesis
    unfolding Let_def by blast
qed

text \<open>
  C7. For a record whose transform returns, \<open>ChargePerTenureMonth\<close> is
  \<open>TotalCharges / (tenure + 1)\<close>, \<open>ChargeTenureRatio\<close> is \<open>MonthlyCharges / (tenure + 1)\<close>
  and \<open>IsHighSpender\<close> is 1 iff \<open>MonthlyCharges > 70\<close>, all on the raw numbers. For finite
  values with \<open>tenure \<noteq> -1\<close> the quotients are the real quotients; for tenure 0 they are
  the charges themselves; and tenure 12, MonthlyCharges 70, TotalCharges 840 give
  \<open>840 / 13\<close>, \<open>70 / 13\<close>, \<open>IsHighSpender = 0\<close> and \<open>IsNewCustomer = 1\<close>.
\<close>

theorem charge_features:
  assumes "numeric_conversion rt r = Inr (t, mc, tc, sen)" and "sc (t, mc, tc) = Some (t', mc', tc')"
  shows "let res = preprocess_input rt (input_df r) sc;
             per_month = value_of res ''ChargePerTenureMonth'';
             ratio = value_of res ''ChargeTenureRatio'';
             spender = value_of res ''IsHighSpender''
         in per_month = Some (Num (fdiv tc (fadd t (Fin 1)))) \<and>
            ratio = Some (Num (fdiv mc (fadd t (Fin 1)))) \<and>
            spender = Some (Num (Fin (if fgt mc (Fin 70) then 1 else 0))) \<and>
            (\<forall>x y z. t = Fin x \<and> mc = Fin y \<and> tc = Fin z \<and> x \<noteq> - 1 \<longrightarrow>
               per_month = Some (Num (Fin (z / (x + 1)))) \<and>
               ratio = Some (Num (Fin (y / (x + 1)))) \<and>
               (spender = Some (Num (Fin 1)) \<longleftrightarrow> y > 70) \<and>
               (spender = Some (Num (Fin 0)) \<longleftrightarrow> \<not> y > 70)) \<and>
            (\<forall>y z. t = Fin 0 \<and> mc = Fin y \<and> tc = Fin z \<longrightarrow>
               per_month = Some (Num (Fin z)) \<and> ratio = Some (Num (Fin y))) \<and>
            (t = Fin 12 \<and> mc = Fin 70 \<and> tc = Fin 840 \<longrightarrow>
               per_month = Some (Num (Fin (840 / 13))) \<and>
               ratio = Some (Num (Fin (70 / 13))) \<and>
               spender = Some (Num (Fin 0)) \<and>
               value_of res ''IsNewCustomer'' = Some (Num (Fin 1)))"
proof -
  have res: "preprocess_input rt (input_df r) sc = Inr (feature_vector r t mc tc sen t' mc' tc')"
    using assms by (rule preprocess_input_converted)
  show ?thesis
    unfolding Let_def res value_of_def
    by (auto simp add: feature_vector_lookup flag_def)
qed

theorem charge_features_witness:
  "value_of (preprocess_input example_runtime
      (input_df (input_dict ''One year'' ''DSL'' 12 70 ''Mailed check'' ''No'' ''No'' ''No''))
      example_scaler) ''ChargePerTenureMonth'' = Some (Num (Fin (840 / 13))) \<and>
   value_of (preprocess_input example_runtime
      (input_df (input_dict ''One year'' ''DSL'' 12 70 ''Mailed check'' ''No'' ''No'' ''No''))
      example_scaler) ''ChargeTenureRatio'' = Some (Num (Fin (70 / 13))) \<and>
   value_of (preprocess_input example_runtime
      (input_df (input_dict ''One year'' ''DSL'' 12 70 ''Mailed check'' ''No'' ''No'' ''No''))
      example_scaler) ''IsHighSpender'' = Some (Num (Fin 0)) \<and>
   value_of (preprocess_input example_runtime
      (input_df (input_dict ''One year'' ''DSL'' 12 70 ''Mailed check'' ''No'' ''No'' ''No''))
      example_scaler) ''IsNewCustomer'' = Some (Num (Fin 1))"
proof -
  have conv: "numeric_conversion example_runtime
      (input_dict ''One year'' ''DSL'' 12 70 ''Mailed check'' ''No'' ''No'' ''No'') =
      Inr (Fin 12, Fin 70, Fin 840, Fin 0)"
    using input_dict_numeric [of example_runtime "''One year''" "''DSL''" 12 70] by simp
  have scaled: "example_scaler (Fin 12, Fin 70, Fin 840) =
      Some (Fin ((12 - 32) / 24), Fin ((70 - 65) / 30), Fin ((840 - 2280) / 2266))"
    by (rule example_scaler_finite)
  from charge_features [where sc = example_scaler, OF conv scaled]
  show ?thesis
    unfolding Let_def by blast
qed

end
